theory Spec2Isabelle
  imports Main "HOL-Library.Sublist"
begin

section \<open>Data model\<close>

text \<open>
  Text is a list of characters, one \<^typ>\<open>char\<close> per character of the Python string, so
  \<^const>\<open>length\<close> is Python's \<open>len\<close> and \<^const>\<open>take\<close> is a slice \<open>s[:n]\<close>. The
  model covers ASCII text: \<open>str.upper\<close> turns the letters \<open>a\<close> to \<open>z\<close> into \<open>A\<close> to \<open>Z\<close>
  (clearing bit 5 of the code subtracts 32) and leaves every other character alone.
\<close>

definition is_ascii_lower :: "char \<Rightarrow> bool" where
  "is_ascii_lower c = (97 \<le> (of_char c :: nat) \<and> (of_char c :: nat) \<le> 122)"

fun upper_char :: "char \<Rightarrow> char" where
  "upper_char (Char b0 b1 b2 b3 b4 b5 b6 b7) =
     (if is_ascii_lower (Char b0 b1 b2 b3 b4 b5 b6 b7) then Char b0 b1 b2 b3 b4 False b6 b7
      else Char b0 b1 b2 b3 b4 b5 b6 b7)"

definition upper :: "string \<Rightarrow> string" where
  "upper s = map upper_char s"

text \<open>Python's \<open>k in s\<close> on two strings: \<open>k\<close> occurs in \<open>s\<close> as a contiguous run.\<close>

fun str_in :: "string \<Rightarrow> string \<Rightarrow> bool" where
  "str_in k [] = (k = [])"
| "str_in k (c # cs) = (prefix k (c # cs) \<or> str_in k cs)"

text \<open>Python's \<open>sep.join(parts)\<close>; it is also used to lay parts out with a separator.\<close>

fun join :: "'a list \<Rightarrow> 'a list list \<Rightarrow> 'a list" where
  "join sep [] = []"
| "join sep [p] = p"
| "join sep (p # q # ps) = p @ sep @ join sep (q # ps)"

text \<open>
  A column label of the table is a string or something else (a number or a date read
  from a spreadsheet header); \<open>find_column\<close> tells the two apart with \<open>isinstance\<close>.
\<close>

datatype label = LStr string | LNum int

text \<open>
  A cell holds a null (\<open>None\<close>, \<open>NaN\<close> or \<open>NaT\<close>, the values \<open>pd.notna\<close> rejects), a
  text, an integer, or any other non-null scalar (a float, a boolean, a timestamp),
  which is represented by the text \<open>str\<close> renders for it.
\<close>

datatype scalar = PyNone | NaN | NaT | Text string | Integer int | Other string

fun notna :: "scalar \<Rightarrow> bool" where
  "notna PyNone = False"
| "notna NaN = False"
| "notna NaT = False"
| "notna (Text s) = True"
| "notna (Integer i) = True"
| "notna (Other s) = True"

fun digits :: "nat \<Rightarrow> string" where
  "digits n = (if n < 10 then [''0123456789'' ! n]
               else digits (n div 10) @ [''0123456789'' ! (n mod 10)])"

declare digits.simps [simp del]

definition str_int :: "int \<Rightarrow> string" where
  "str_int i = (if i < 0 then ''-'' @ digits (nat (- i)) else digits (nat i))"

fun str :: "scalar \<Rightarrow> string" where
  "str PyNone = ''None''"
| "str NaN = ''nan''"
| "str NaT = ''NaT''"
| "str (Text s) = s"
| "str (Integer i) = str_int i"
| "str (Other s) = s"

text \<open>
  A row is a pandas Series: a lookup from column label to cell (loaded tables have
  distinct column labels). A table gives its header, \<open>df.columns\<close>, and what
  \<open>df.iterrows()\<close> yields: each row paired with its index label. For a table with the
  default index the labels are the positions \<open>0, 1, ...\<close>; the arithmetic the code
  does on them presumes integers.
\<close>

type_synonym series = "label \<rightharpoonup> scalar"

record data_frame =
  columns :: "label list"
  iterrows :: "(int \<times> series) list"

definition len :: "data_frame \<Rightarrow> int" where
  "len df = int (length (iterrows df))"

section \<open>Column resolver\<close>

text \<open>
  \<open>find_column\<close>: the outer loop runs over the keywords, the inner loop over the
  columns; the first hit returns, and falling out of both loops returns \<open>None\<close>.
\<close>

fun find_in_cols :: "string \<Rightarrow> label list \<Rightarrow> string option" where
  "find_in_cols keyword [] = None"
| "find_in_cols keyword (LStr col # cols) =
     (if str_in (upper keyword) (upper col) then Some col else find_in_cols keyword cols)"
| "find_in_cols keyword (LNum n # cols) = find_in_cols keyword cols"

fun find_in_keywords :: "label list \<Rightarrow> string list \<Rightarrow> string option" where
  "find_in_keywords cols [] = None"
| "find_in_keywords cols (keyword # keywords) =
     (case find_in_cols keyword cols of
        Some col \<Rightarrow> Some col
      | None \<Rightarrow> find_in_keywords cols keywords)"

definition find_column :: "data_frame \<Rightarrow> string list \<Rightarrow> string option" where
  "find_column df keywords = find_in_keywords (columns df) keywords"

text \<open>
  The resolver as the specification words it: a column contains an alias when the
  upper-cased alias is a contiguous sublist of the upper-cased column name, and the
  answer is the first hit when aliases are tried in priority order and, for each alias,
  columns in header order.
\<close>

definition contains_alias :: "string \<Rightarrow> string \<Rightarrow> bool" where
  "contains_alias col alias = sublist (upper alias) (upper col)"

definition columns_containing :: "label list \<Rightarrow> string \<Rightarrow> string list" where
  "columns_containing header alias = [col. LStr col \<leftarrow> header, contains_alias col alias]"

definition resolver_spec :: "label list \<Rightarrow> string list \<Rightarrow> string option" where
  "resolver_spec header aliases =
     (case concat (map (columns_containing header) aliases) of
        [] \<Rightarrow> None
      | col # _ \<Rightarrow> Some col)"

section \<open>Location components\<close>

text \<open>
  The column maps are dictionaries with seven fixed keys each; the values are what
  \<open>find_column\<close> returned: a column name or \<open>None\<close>.
\<close>

record line_location_columns =
  model :: "string option"
  station_no :: "string option"
  rack :: "string option"
  rack_no_1st :: "string option"
  rack_no_2nd :: "string option"
  level :: "string option"
  cell :: "string option"

record store_location_columns =
  abb_zone :: "string option"
  abb_location :: "string option"
  abb_floor :: "string option"
  abb_rack_no :: "string option"
  abb_level_in_rack :: "string option"
  abb_cell :: "string option"
  abb_no :: "string option"

text \<open>
  Every cell is read behind the guard \<open>col and col in row\<close>. The first conjunct is
  Python's truth value of \<open>col\<close>, false for \<open>None\<close> and for the empty string; the second
  asks whether the row has the label. Only then is \<open>row[col]\<close> read.
\<close>

definition guarded_cell :: "series \<Rightarrow> string option \<Rightarrow> scalar option" where
  "guarded_cell row col =
     (case col of
        None \<Rightarrow> None
      | Some c \<Rightarrow> if c = [] then None else row (LStr c))"

text \<open>\<open>str(v) if pd.notna(v) else ""\<close>\<close>

definition str_if_notna :: "scalar \<Rightarrow> string" where
  "str_if_notna v = (if notna v then str v else [])"

text \<open>One guarded assignment \<open>components[i] = ...\<close>.\<close>

definition assign_component :: "nat \<Rightarrow> series \<Rightarrow> string option \<Rightarrow> string list \<Rightarrow> string list" where
  "assign_component i row col components =
     (case guarded_cell row col of
        None \<Rightarrow> components
      | Some v \<Rightarrow> components[i := str_if_notna v])"

definition extract_line_location_components :: "series \<Rightarrow> line_location_columns \<Rightarrow> string list" where
  "extract_line_location_components row cols =
     (let components = replicate 7 [];
          components = assign_component 0 row (model cols) components;
          components = assign_component 1 row (station_no cols) components;
          components = assign_component 2 row (rack cols) components;
          components = assign_component 3 row (rack_no_1st cols) components;
          components = assign_component 4 row (rack_no_2nd cols) components;
          components = assign_component 5 row (level cols) components;
          components = assign_component 6 row (cell cols) components
      in components)"

definition extract_store_location_components :: "series \<Rightarrow> store_location_columns \<Rightarrow> string list" where
  "extract_store_location_components row cols =
     (let components = replicate 7 [];
          components = assign_component 0 row (abb_zone cols) components;
          components = assign_component 1 row (abb_location cols) components;
          components = assign_component 2 row (abb_floor cols) components;
          components = assign_component 3 row (abb_rack_no cols) components;
          components = assign_component 4 row (abb_level_in_rack cols) components;
          components = assign_component 5 row (abb_cell cols) components;
          components = assign_component 6 row (abb_no cols) components
      in components)"

text \<open>
  The entry the specification describes for one slot: empty when the column is
  unresolved, absent from the row or null, the stringified cell otherwise.
\<close>

definition entry_spec :: "series \<Rightarrow> string option \<Rightarrow> string" where
  "entry_spec row col =
     (case col of
        None \<Rightarrow> []
      | Some c \<Rightarrow> (case row (LStr c) of
                     None \<Rightarrow> []
                   | Some v \<Rightarrow> if notna v then str v else []))"

section \<open>Label composer\<close>

text \<open>The column map that \<open>generate_sticker_labels\<close> builds once from the header.\<close>

record column_map =
  part_no_col :: "string option"
  desc_col :: "string option"
  qty_bin_col :: "string option"
  line_cols :: line_location_columns
  store_cols :: store_location_columns

definition resolve_columns :: "data_frame \<Rightarrow> column_map" where
  "resolve_columns df =
     \<lparr> part_no_col = find_column df [''PART NO'', ''PARTNO'', ''PART'', ''PART_NO'', ''PART#''],
       desc_col = find_column df [''PART DESC'', ''DESC'', ''DESCRIPTION'', ''NAME'', ''PRODUCT_NAME''],
       qty_bin_col = find_column df [''QTY/BIN'', ''QTY_BIN'', ''QTYBIN'', ''QTY'', ''QUANTITY''],
       line_cols =
         \<lparr> model = find_column df [''MODEL'', ''BUS MODEL'', ''BUS_MODEL'', ''BUSMODEL'', ''BUS''],
           station_no = find_column df [''STATION NO'', ''STATION_NO'', ''STATIONNO'', ''STATION''],
           rack = find_column df [''RACK''],
           rack_no_1st = find_column df [''RACK NO. (1ST DIGIT)'', ''RACK NO (1ST DIGIT)'',
                                         ''RACK_NO_1ST'', ''RACK NO 1ST''],
           rack_no_2nd = find_column df [''RACK NO. (2ND DIGIT)'', ''RACK NO (2ND DIGIT)'',
                                         ''RACK_NO_2ND'', ''RACK NO 2ND''],
           level = find_column df [''LEVEL''],
           cell = find_column df [''CELL''] \<rparr>,
       store_cols =
         \<lparr> abb_zone = find_column df [''ABB FOR ZONE'', ''ABB_FOR_ZONE'', ''ABB ZONE'', ''ABB_ZONE'',
                                      ''ABBZONE'', ''ZONE''],
           abb_location = find_column df [''ABB FOR LOCATION'', ''ABB_FOR_LOCATION'', ''ABB LOCATION'',
                                          ''ABB_LOCATION'', ''ABBLOCATION''],
           abb_floor = find_column df [''ABB FOR FLOOR'', ''ABB_FOR_FLOOR'', ''ABB FLOOR'', ''ABB_FLOOR'',
                                       ''ABBFLOOR'', ''FLOOR''],
           abb_rack_no = find_column df [''ABB FOR RACK NO'', ''ABB_FOR_RACK_NO'', ''ABB RACK NO'',
                                         ''ABB_RACK_NO'', ''ABBRACKNO'', ''ABB RACK''],
           abb_level_in_rack = find_column df [''ABB FOR LEVEL IN RACK'', ''ABB_FOR_LEVEL_IN_RACK'',
                                               ''ABB LEVEL IN RACK'', ''ABB_LEVEL_IN_RACK'',
                                               ''ABBLEVELINRACK'', ''ABB LEVEL''],
           abb_cell = find_column df [''ABB FOR CELL'', ''ABB_FOR_CELL'', ''ABB CELL'', ''ABB_CELL'',
                                      ''ABBCELL''],
           abb_no = find_column df [''ABB FOR NO'', ''ABB_FOR_NO'', ''ABB NO'', ''ABB_NO'', ''ABBNO'',
                                    ''ABB NUMBER''] \<rparr> \<rparr>"

text \<open>
  The three basic fields of a row. Part number and description are stringified as they
  are; only the quantity goes through \<open>pd.notna\<close>.
\<close>

definition part_no :: "column_map \<Rightarrow> series \<Rightarrow> string" where
  "part_no cm row = (case guarded_cell row (part_no_col cm) of None \<Rightarrow> [] | Some v \<Rightarrow> str v)"

definition desc :: "column_map \<Rightarrow> series \<Rightarrow> string" where
  "desc cm row = (case guarded_cell row (desc_col cm) of None \<Rightarrow> [] | Some v \<Rightarrow> str v)"

definition qty_bin :: "column_map \<Rightarrow> series \<Rightarrow> string" where
  "qty_bin cm row =
     (case guarded_cell row (qty_bin_col cm) of
        None \<Rightarrow> []
      | Some v \<Rightarrow> if notna v then str v else [])"

definition newline :: string where
  "newline = [CHR 0x0A]"

definition qr_data :: "column_map \<Rightarrow> series \<Rightarrow> string" where
  "qr_data cm row =
     ''Part No: '' @ part_no cm row @ newline @
     ''Description: '' @ desc cm row @ newline @
     ''QTY/BIN: '' @ qty_bin cm row @ newline @
     ''Line Location: '' @ join '' | '' (extract_line_location_components row (line_cols cm)) @ newline @
     ''Store Location: '' @ join '' | '' (extract_store_location_components row (store_cols cm))"

text \<open>
  The QR library is a parameter: it turns a payload into the bytes of a picture, or
  raises (\<open>None\<close>). \<open>generate_qr_code\<close> catches every exception and returns \<open>None\<close> then.
\<close>

type_synonym qr_library = "string \<Rightarrow> string option"

datatype image = Image string

definition generate_qr_code :: "qr_library \<Rightarrow> string \<Rightarrow> image option" where
  "generate_qr_code qrcode data_string =
     (case qrcode data_string of
        Some png \<Rightarrow> Some (Image png)
      | None \<Rightarrow> None)"

text \<open>
  A sticker keeps the content of the page's table and drops its geometry and styles:
  the three rows of the main table as pairs of heading and paragraph text, the two
  seven-cell strips, and the cell of the QR table, a picture or a paragraph. A
  paragraph is the text handed to the layout library; how the library reads markup in
  that text is outside the model.
\<close>

datatype qr_cell = Picture image | Paragraph string

record sticker =
  main_table_data :: "(string \<times> string) list"
  store_location_parts :: "string list"
  line_location_parts :: "string list"
  qr_table :: qr_cell

datatype flowable = Spacer | FinalTable sticker | PageBreak

text \<open>\<open>desc[:30] + "..." if len(desc) > 30 else desc\<close>\<close>

definition desc_paragraph :: "string \<Rightarrow> string" where
  "desc_paragraph d = (if length d > 30 then take 30 d @ ''...'' else d)"

definition final_table :: "qr_library \<Rightarrow> column_map \<Rightarrow> series \<Rightarrow> sticker" where
  "final_table qrcode cm row =
     \<lparr> main_table_data =
         [(''Part No'', part_no cm row),
          (''Desc'', desc_paragraph (desc cm row)),
          (''Q/B'', qty_bin cm row)],
       store_location_parts = extract_store_location_components row (store_cols cm),
       line_location_parts = extract_line_location_components row (line_cols cm),
       qr_table =
         (case generate_qr_code qrcode (qr_data cm row) of
            Some qr_image \<Rightarrow> Picture qr_image
          | None \<Rightarrow> Paragraph ''QR'') \<rparr>"

text \<open>
  The loop over \<open>df.iterrows()\<close>: each row adds a spacer and its table, then a page
  break when \<open>index < len(df) - 1\<close>, where \<open>index\<close> is the row's index label. The
  progress bar and the status container are optional and only receive messages; the
  model runs without them.
\<close>

fun sticker_loop :: "qr_library \<Rightarrow> column_map \<Rightarrow> int \<Rightarrow> (int \<times> series) list \<Rightarrow> flowable list" where
  "sticker_loop qrcode cm n [] = []"
| "sticker_loop qrcode cm n ((index, row) # rest) =
     [Spacer, FinalTable (final_table qrcode cm row)] @
     (if index < n - 1 then [PageBreak] else []) @
     sticker_loop qrcode cm n rest"

definition all_elements :: "qr_library \<Rightarrow> data_frame \<Rightarrow> flowable list" where
  "all_elements qrcode df = sticker_loop qrcode (resolve_columns df) (len df) (iterrows df)"

text \<open>
  Files: the temporary file is created empty and, when the document builds, holds the
  document. Document assembly is a parameter that says which stories build; when
  \<open>doc.build\<close> raises the function returns \<open>None\<close> and leaves the file as created.
\<close>

datatype temp_file = EmptyFile | PdfFile "flowable list"

type_synonym filesystem = "string \<rightharpoonup> temp_file"

definition generate_sticker_labels ::
  "qr_library \<Rightarrow> (flowable list \<Rightarrow> bool) \<Rightarrow> string \<Rightarrow> data_frame \<Rightarrow> filesystem \<Rightarrow> string option \<times> filesystem" where
  "generate_sticker_labels qrcode builds temp_path df fs =
     (let fs = fs(temp_path \<mapsto> EmptyFile);
          story = all_elements qrcode df
      in if builds story then (Some temp_path, fs(temp_path \<mapsto> PdfFile story))
         else (None, fs))"

text \<open>
  What \<open>main\<close> does once the button is pressed: on a path it reads the file, unlinks
  it and offers the bytes for download; on \<open>None\<close> it reports the failure. Reading a
  file that is not there raises, which the outer handler reports.
\<close>

datatype outcome = Download temp_file | Failed | ReadError

definition main_generate ::
  "qr_library \<Rightarrow> (flowable list \<Rightarrow> bool) \<Rightarrow> string \<Rightarrow> data_frame \<Rightarrow> filesystem \<Rightarrow> outcome \<times> filesystem" where
  "main_generate qrcode builds temp_path df fs =
     (case generate_sticker_labels qrcode builds temp_path df fs of
        (Some pdf_path, fs') \<Rightarrow>
          if pdf_path = [] then (Failed, fs')
          else (case fs' pdf_path of
                  Some pdf_data \<Rightarrow> (Download pdf_data, fs'(pdf_path := None))
                | None \<Rightarrow> (ReadError, fs'))
      | (None, fs') \<Rightarrow> (Failed, fs'))"

text \<open>
  Pages of a story, as the layout engine cuts them: flowables fill the current page
  until a page break closes it; a page opens only when a flowable arrives. Every
  sticker is far shorter than the page, so overflow is left out.
\<close>

fun paginate :: "flowable list \<Rightarrow> flowable list \<Rightarrow> flowable list list" where
  "paginate page [] = (if page = [] then [] else [page])"
| "paginate page (PageBreak # fs) = page # paginate [] fs"
| "paginate page (f # fs) = paginate (page @ [f]) fs"

definition pages :: "flowable list \<Rightarrow> flowable list list" where
  "pages story = paginate [] story"

text \<open>The stickers of a story, in order.\<close>

definition stickers :: "flowable list \<Rightarrow> sticker list" where
  "stickers story = [s. FinalTable s \<leftarrow> story]"

section \<open>Example tables\<close>

text \<open>
  The table of the end-to-end scenario of the specification: fifteen columns, two rows
  with the default index. The first row has the listed values in the first eight
  columns; its other cells, and the whole second row, are left open.
\<close>

definition scenario_header :: "label list" where
  "scenario_header =
     [LStr ''PART NO'', LStr ''DESC'', LStr ''QTY'', LStr ''MODEL'', LStr ''STATION NO'',
      LStr ''RACK'', LStr ''LEVEL'', LStr ''CELL'', LStr ''ABB FOR ZONE'', LStr ''ABB FOR LOCATION'',
      LStr ''ABB FOR FLOOR'', LStr ''ABB FOR RACK NO'', LStr ''ABB FOR LEVEL IN RACK'',
      LStr ''ABB FOR CELL'', LStr ''ABB FOR NO'']"

definition scenario_row1 :: "series \<Rightarrow> series" where
  "scenario_row1 abb =
     abb(LStr ''PART NO'' \<mapsto> Text ''A100'', LStr ''DESC'' \<mapsto> Text ''Bolt M6'',
         LStr ''QTY'' \<mapsto> Integer 50, LStr ''MODEL'' \<mapsto> Text ''X1'',
         LStr ''STATION NO'' \<mapsto> Text ''S3'', LStr ''RACK'' \<mapsto> Text ''R2'',
         LStr ''LEVEL'' \<mapsto> Text [], LStr ''CELL'' \<mapsto> Text ''L4'')"

definition scenario_table :: "series \<Rightarrow> series \<Rightarrow> data_frame" where
  "scenario_table abb row2 =
     \<lparr> columns = scenario_header, iterrows = [(0, scenario_row1 abb), (1, row2)] \<rparr>"

text \<open>One way to fill what the scenario leaves open: empty store cells, a second part.\<close>

definition empty_abb :: series where
  "empty_abb =
     [LStr ''ABB FOR ZONE'' \<mapsto> Text [], LStr ''ABB FOR LOCATION'' \<mapsto> Text [],
      LStr ''ABB FOR FLOOR'' \<mapsto> Text [], LStr ''ABB FOR RACK NO'' \<mapsto> Text [],
      LStr ''ABB FOR LEVEL IN RACK'' \<mapsto> Text [], LStr ''ABB FOR CELL'' \<mapsto> Text [],
      LStr ''ABB FOR NO'' \<mapsto> Text []]"

definition scenario_row2 :: series where
  "scenario_row2 =
     empty_abb(LStr ''PART NO'' \<mapsto> Text ''A200'', LStr ''DESC'' \<mapsto> Text ''Nut M6'',
         LStr ''QTY'' \<mapsto> Integer 25, LStr ''MODEL'' \<mapsto> Text ''X1'',
         LStr ''STATION NO'' \<mapsto> Text ''S4'', LStr ''RACK'' \<mapsto> Text ''R1'',
         LStr ''LEVEL'' \<mapsto> Text ''2'', LStr ''CELL'' \<mapsto> Text ''L1'')"

text \<open>
  A two-row table of parts without a quantity column, with the row labels as
  parameters. Labels 0 and 1 are the default index. Other labels arise when the table is
  loaded from a file whose data lines have one field more than its header line: the
  loader then takes the first field of each line as the row label.
\<close>

definition parts_labelled :: "int \<Rightarrow> int \<Rightarrow> data_frame" where
  "parts_labelled i j =
     \<lparr> columns = [LStr ''Part No'', LStr ''Description''],
       iterrows =
         [(i, [LStr ''Part No'' \<mapsto> Text ''A100'', LStr ''Description'' \<mapsto> Text ''Bolt M6'']),
          (j, [LStr ''Part No'' \<mapsto> Text ''A200'', LStr ''Description'' \<mapsto> Text ''Nut M6''])] \<rparr>"

text \<open>A one-row table whose cells are all null.\<close>

definition null_row :: series where
  "null_row =
     [LStr ''Part No'' \<mapsto> NaN, LStr ''Desc'' \<mapsto> PyNone, LStr ''Qty'' \<mapsto> NaN, LStr ''Rack'' \<mapsto> NaN]"

definition parts_with_nulls :: data_frame where
  "parts_with_nulls =
     \<lparr> columns = [LStr ''Part No'', LStr ''Desc'', LStr ''Qty'', LStr ''Rack''],
       iterrows = [(0, null_row)] \<rparr>"

text \<open>A QR library that raises on every payload that mentions part A100.\<close>

definition fails_on_A100 :: qr_library where
  "fails_on_A100 payload = (if str_in ''A100'' payload then None else Some payload)"

text \<open>The default index: the row labels are the positions.\<close>

definition default_index :: "data_frame \<Rightarrow> bool" where
  "default_index df = (map fst (iterrows df) = map int [0..<length (iterrows df)])"

section \<open>Properties of the column resolver\<close>

lemma str_in_sublist: "str_in k s = sublist k s"
  by (induction s) (auto simp: sublist_Cons_right)

lemma str_in_upper: "str_in (upper kw) (upper col) = contains_alias col kw"
  by (simp add: contains_alias_def str_in_sublist)

lemma columns_containing_simps:
  "columns_containing [] kw = []"
  "columns_containing (LStr col # header) kw =
     (if contains_alias col kw then col # columns_containing header kw
      else columns_containing header kw)"
  "columns_containing (LNum n # header) kw = columns_containing header kw"
  by (simp_all add: columns_containing_def)

lemma set_columns_containing:
  "set (columns_containing header kw) = {col. LStr col \<in> set header \<and> contains_alias col kw}"
  by (auto simp: columns_containing_def split: label.splits if_splits)

lemma find_in_cols_spec:
  "find_in_cols kw header =
     (case columns_containing header kw of [] \<Rightarrow> None | col # _ \<Rightarrow> Some col)"
  by (induction kw header rule: find_in_cols.induct)
     (simp_all add: str_in_upper columns_containing_simps)

lemma first_of_append:
  "(case xs @ ys of [] \<Rightarrow> None | x # _ \<Rightarrow> Some x) =
     (case xs of [] \<Rightarrow> (case ys of [] \<Rightarrow> None | y # _ \<Rightarrow> Some y) | x # _ \<Rightarrow> Some x)"
  by (cases xs) simp_all

lemma resolver_spec_Cons:
  "resolver_spec header (kw # aliases) =
     (case find_in_cols kw header of
        Some col \<Rightarrow> Some col
      | None \<Rightarrow> resolver_spec header aliases)"
  unfolding resolver_spec_def find_in_cols_spec
  by (simp add: first_of_append split: list.split)

lemma find_in_keywords_spec: "find_in_keywords header aliases = resolver_spec header aliases"
proof (induction aliases)
  case Nil
  show ?case by (simp add: resolver_spec_def)
next
  case (Cons kw aliases)
  then show ?case
    by (simp add: resolver_spec_Cons cong: option.case_cong)
qed

lemma first_None: "(case xs of [] \<Rightarrow> None | x # _ \<Rightarrow> Some x) = None \<longleftrightarrow> xs = []"
  by (cases xs) simp_all

lemma resolver_spec_None:
  "resolver_spec header aliases = None \<longleftrightarrow>
     (\<forall>alias \<in> set aliases. \<forall>col. LStr col \<in> set header \<longrightarrow> \<not> contains_alias col alias)"
proof -
  have "resolver_spec header aliases = None \<longleftrightarrow>
          concat (map (columns_containing header) aliases) = []"
    unfolding resolver_spec_def by (rule first_None)
  also have "\<dots> \<longleftrightarrow> (\<forall>alias \<in> set aliases. set (columns_containing header alias) = {})"
    by simp
  finally show ?thesis
    by (simp add: set_columns_containing)
qed

lemma contains_alias_nonempty: "contains_alias col kw \<Longrightarrow> kw \<noteq> [] \<Longrightarrow> col \<noteq> []"
  by (auto simp: contains_alias_def upper_def)

lemma find_in_cols_contains: "find_in_cols kw header = Some col \<Longrightarrow> contains_alias col kw"
  by (induction kw header rule: find_in_cols.induct) (auto simp: str_in_upper split: if_splits)

lemma find_in_keywords_contains:
  "find_in_keywords header kws = Some col \<Longrightarrow> \<exists>kw \<in> set kws. contains_alias col kw"
  by (induction kws) (auto split: option.splits dest: find_in_cols_contains)

lemma find_column_nonempty: "find_column df kws = Some col \<Longrightarrow> [] \<notin> set kws \<Longrightarrow> col \<noteq> []"
  unfolding find_column_def
  by (metis find_in_keywords_contains contains_alias_nonempty)

lemma find_in_cols_mem: "find_in_cols kw header = Some col \<Longrightarrow> LStr col \<in> set header"
  by (induction kw header rule: find_in_cols.induct) (auto split: if_splits)

lemma find_in_keywords_mem: "find_in_keywords header kws = Some col \<Longrightarrow> LStr col \<in> set header"
  by (induction kws) (auto split: option.splits dest: find_in_cols_mem)

text \<open>
  C1. For every header and every ordered alias list, \<open>find_column\<close> returns the first
  column name, aliases taken in priority order and columns in header order for each
  alias, whose text contains the alias as a case-insensitive substring; a returned
  name is a column of the header and contains one of the aliases; it returns \<open>None\<close>,
  raising nothing, exactly when no string column contains any alias.
\<close>

theorem find_column_first_match:
  "find_column df aliases = resolver_spec (columns df) aliases \<and>
   (\<forall>col. find_column df aliases = Some col \<longrightarrow>
      LStr col \<in> set (columns df) \<and> (\<exists>alias \<in> set aliases. contains_alias col alias)) \<and>
   (find_column df aliases = None \<longleftrightarrow>
      (\<forall>alias \<in> set aliases. \<forall>col. LStr col \<in> set (columns df) \<longrightarrow> \<not> contains_alias col alias))"
proof -
  have first: "find_column df aliases = resolver_spec (columns df) aliases"
    by (simp add: find_column_def find_in_keywords_spec)
  have sound: "\<forall>col. find_column df aliases = Some col \<longrightarrow>
      LStr col \<in> set (columns df) \<and> (\<exists>alias \<in> set aliases. contains_alias col alias)"
    unfolding find_column_def
    using find_in_keywords_mem find_in_keywords_contains by blast
  have none: "find_column df aliases = None \<longleftrightarrow>
      (\<forall>alias \<in> set aliases. \<forall>col. LStr col \<in> set (columns df) \<longrightarrow> \<not> contains_alias col alias)"
    by (simp add: first resolver_spec_None)
  from first sound none show ?thesis by blast
qed

theorem find_column_first_match_witness:
  "resolver_spec [LNum 7, LStr ''Part Desc'', LStr ''part no''] [''PART NO'', ''PART''] = Some ''part no''"
proof -
  let ?df = "\<lparr>columns = [LNum 7, LStr ''Part Desc'', LStr ''part no''], iterrows = []\<rparr>"
  have run: "find_column ?df [''PART NO'', ''PART''] = Some ''part no''"
    by (simp add: find_column_def upper_def is_ascii_lower_def)
  from find_column_first_match [of ?df "[''PART NO'', ''PART'']"] run
  show ?thesis by simp
qed

section \<open>Properties of the location components\<close>

lemma replicate7: "replicate 7 x = [x, x, x, x, x, x, x]"
  by (simp add: numeral_eq_Suc)

lemma update_same: "xs ! i = v \<Longrightarrow> xs[i := v] = xs"
  by (induction xs arbitrary: i) (auto split: nat.splits)

lemma assign_component_slot:
  "i < length components \<Longrightarrow> components ! i = [] \<Longrightarrow>
     assign_component i row col components =
       components[i := (if col = Some [] then [] else entry_spec row col)]"
  by (auto simp: assign_component_def guarded_cell_def entry_spec_def str_if_notna_def update_same
           split: option.splits)

lemma extract_line_slots:
  "extract_line_location_components row cols =
     map (\<lambda>col. if col = Some [] then [] else entry_spec row col)
       [model cols, station_no cols, rack cols, rack_no_1st cols, rack_no_2nd cols,
        level cols, cell cols]"
  by (simp add: extract_line_location_components_def Let_def replicate7 assign_component_slot)

lemma extract_store_slots:
  "extract_store_location_components row cols =
     map (\<lambda>col. if col = Some [] then [] else entry_spec row col)
       [abb_zone cols, abb_location cols, abb_floor cols, abb_rack_no cols,
        abb_level_in_rack cols, abb_cell cols, abb_no cols]"
  by (simp add: extract_store_location_components_def Let_def replicate7 assign_component_slot)

lemma resolved_line_nonempty:
  "Some [] \<notin> set [model (line_cols (resolve_columns df)), station_no (line_cols (resolve_columns df)),
                     rack (line_cols (resolve_columns df)), rack_no_1st (line_cols (resolve_columns df)),
                     rack_no_2nd (line_cols (resolve_columns df)), level (line_cols (resolve_columns df)),
                     cell (line_cols (resolve_columns df))]"
  by (auto simp: resolve_columns_def dest!: sym [THEN find_column_nonempty])

lemma resolved_store_nonempty:
  "Some [] \<notin> set [abb_zone (store_cols (resolve_columns df)), abb_location (store_cols (resolve_columns df)),
                     abb_floor (store_cols (resolve_columns df)), abb_rack_no (store_cols (resolve_columns df)),
                     abb_level_in_rack (store_cols (resolve_columns df)),
                     abb_cell (store_cols (resolve_columns df)), abb_no (store_cols (resolve_columns df))]"
  by (auto simp: resolve_columns_def dest!: sym [THEN find_column_nonempty])

lemma extract_line_named:
  "Some [] \<notin> set [model lc, station_no lc, rack lc, rack_no_1st lc, rack_no_2nd lc, level lc, cell lc] \<Longrightarrow>
   extract_line_location_components row lc =
     map (entry_spec row)
       [model lc, station_no lc, rack lc, rack_no_1st lc, rack_no_2nd lc, level lc, cell lc]"
  by (simp add: extract_line_slots) metis

lemma extract_store_named:
  "Some [] \<notin> set [abb_zone sc, abb_location sc, abb_floor sc, abb_rack_no sc,
                     abb_level_in_rack sc, abb_cell sc, abb_no sc] \<Longrightarrow>
   extract_store_location_components row sc =
     map (entry_spec row)
       [abb_zone sc, abb_location sc, abb_floor sc, abb_rack_no sc,
        abb_level_in_rack sc, abb_cell sc, abb_no sc]"
  by (simp add: extract_store_slots) metis

text \<open>
  C2. For every row and every column map, each of the two component sequences has
  exactly 7 entries. For every column map the resolver builds from a header, with any
  or all location columns unresolved, and for every column map whose names are not
  empty, an entry is the empty string when its column is unresolved, is absent from
  the row or holds a null, and the stringified cell otherwise. The resolver never
  returns an empty name, so this covers every column map the program passes.
\<close>

theorem location_components_entries:
  "length (extract_line_location_components row lc) = 7 \<and>
   length (extract_store_location_components row sc) = 7 \<and>
   extract_line_location_components row (line_cols (resolve_columns df)) =
     map (entry_spec row)
       [model (line_cols (resolve_columns df)), station_no (line_cols (resolve_columns df)),
        rack (line_cols (resolve_columns df)), rack_no_1st (line_cols (resolve_columns df)),
        rack_no_2nd (line_cols (resolve_columns df)), level (line_cols (resolve_columns df)),
        cell (line_cols (resolve_columns df))] \<and>
   extract_store_location_components row (store_cols (resolve_columns df)) =
     map (entry_spec row)
       [abb_zone (store_cols (resolve_columns df)), abb_location (store_cols (resolve_columns df)),
        abb_floor (store_cols (resolve_columns df)), abb_rack_no (store_cols (resolve_columns df)),
        abb_level_in_rack (store_cols (resolve_columns df)),
        abb_cell (store_cols (resolve_columns df)), abb_no (store_cols (resolve_columns df))] \<and>
   (Some [] \<notin> set [model lc, station_no lc, rack lc, rack_no_1st lc, rack_no_2nd lc, level lc, cell lc] \<longrightarrow>
      extract_line_location_components row lc =
        map (entry_spec row)
          [model lc, station_no lc, rack lc, rack_no_1st lc, rack_no_2nd lc, level lc, cell lc]) \<and>
   (Some [] \<notin> set [abb_zone sc, abb_location sc, abb_floor sc, abb_rack_no sc,
                      abb_level_in_rack sc, abb_cell sc, abb_no sc] \<longrightarrow>
      extract_store_location_components row sc =
        map (entry_spec row)
          [abb_zone sc, abb_location sc, abb_floor sc, abb_rack_no sc,
           abb_level_in_rack sc, abb_cell sc, abb_no sc])"
proof -
  have lengths: "length (extract_line_location_components row lc) = 7"
                "length (extract_store_location_components row sc) = 7"
    by (simp_all add: extract_line_slots extract_store_slots)
  note resolved_line = extract_line_named [OF resolved_line_nonempty, of row df]
  note resolved_store = extract_store_named [OF resolved_store_nonempty, of row df]
  from lengths resolved_line resolved_store
       extract_line_named [of lc row] extract_store_named [of sc row]
  show ?thesis by blast
qed

theorem location_components_entries_witness:
  "Some [] \<notin> set [Some ''MODEL'', None, None, None, None, Some ''LEVEL'', Some ''CELL''] \<and>
   extract_line_location_components
     [LStr ''MODEL'' \<mapsto> Text ''X1'', LStr ''LEVEL'' \<mapsto> NaN]
     \<lparr>model = Some ''MODEL'', station_no = None, rack = None, rack_no_1st = None,
      rack_no_2nd = None, level = Some ''LEVEL'', cell = Some ''CELL''\<rparr> =
     [''X1'', [], [], [], [], [], []] \<and>
   Some [] \<notin> set [None, None, None, None, None, None, None :: string option] \<and>
   extract_store_location_components
     [LStr ''MODEL'' \<mapsto> Text ''X1'', LStr ''LEVEL'' \<mapsto> NaN]
     \<lparr>abb_zone = None, abb_location = None, abb_floor = None, abb_rack_no = None,
      abb_level_in_rack = None, abb_cell = None, abb_no = None\<rparr> =
     [[], [], [], [], [], [], []]"
  using location_components_entries
          [where row = "[LStr ''MODEL'' \<mapsto> Text ''X1'', LStr ''LEVEL'' \<mapsto> NaN]"
             and lc = "\<lparr>model = Some ''MODEL'', station_no = None, rack = None, rack_no_1st = None,
                        rack_no_2nd = None, level = Some ''LEVEL'', cell = Some ''CELL''\<rparr>"
             and sc = "\<lparr>abb_zone = None, abb_location = None, abb_floor = None, abb_rack_no = None,
                        abb_level_in_rack = None, abb_cell = None, abb_no = None\<rparr>"]
  by (simp add: entry_spec_def)

section \<open>Properties of the sticker content\<close>

text \<open>
  C6. The description row of the sticker shows the description through the
  truncation; a description longer than 30 characters is rendered as its first 30
  characters followed by three dots, a description of at most 30 characters verbatim.
\<close>

theorem desc_truncation:
  "main_table_data (final_table qrcode cm row) ! 1 = (''Desc'', desc_paragraph (desc cm row)) \<and>
   (30 < length d \<longrightarrow> desc_paragraph d = take 30 d @ ''...'') \<and>
   (length d \<le> 30 \<longrightarrow> desc_paragraph d = d)"
  by (simp add: final_table_def desc_paragraph_def)

theorem desc_truncation_witness:
  "30 < length ''Hexagon socket head cap screw M6x20'' \<and>
   desc_paragraph ''Hexagon socket head cap screw M6x20'' = ''Hexagon socket head cap screw ...'' \<and>
   length ''Bolt M6'' \<le> 30 \<and> desc_paragraph ''Bolt M6'' = ''Bolt M6''"
  using desc_truncation [of _ _ _ "''Hexagon socket head cap screw M6x20''"]
        desc_truncation [of _ _ _ "''Bolt M6''"]
  by simp

lemma join7:
  "length xs = 7 \<Longrightarrow>
   join sep xs =
     xs ! 0 @ sep @ xs ! 1 @ sep @ xs ! 2 @ sep @ xs ! 3 @ sep @ xs ! 4 @ sep @ xs ! 5 @ sep @ xs ! 6"
  by (auto simp: numeral_eq_Suc length_Suc_conv)

text \<open>
  C7. The QR payload of a row is the fixed template: part number, description and
  quantity, each after its label and each ending its line, then the 7 Line Location
  components joined with \<open>" | "\<close>, then the 7 Store Location components joined the same
  way. The payload is a function of the column map and the row alone, so equal row
  values give equal payloads.
\<close>

theorem qr_payload_template:
  "length (extract_line_location_components row (line_cols cm)) = 7 \<and>
   length (extract_store_location_components row (store_cols cm)) = 7 \<and>
   qr_data cm row =
     ''Part No: '' @ part_no cm row @ [CHR 0x0A] @
     ''Description: '' @ desc cm row @ [CHR 0x0A] @
     ''QTY/BIN: '' @ qty_bin cm row @ [CHR 0x0A] @
     ''Line Location: '' @
       extract_line_location_components row (line_cols cm) ! 0 @ '' | '' @
       extract_line_location_components row (line_cols cm) ! 1 @ '' | '' @
       extract_line_location_components row (line_cols cm) ! 2 @ '' | '' @
       extract_line_location_components row (line_cols cm) ! 3 @ '' | '' @
       extract_line_location_components row (line_cols cm) ! 4 @ '' | '' @
       extract_line_location_components row (line_cols cm) ! 5 @ '' | '' @
       extract_line_location_components row (line_cols cm) ! 6 @ [CHR 0x0A] @
     ''Store Location: '' @
       extract_store_location_components row (store_cols cm) ! 0 @ '' | '' @
       extract_store_location_components row (store_cols cm) ! 1 @ '' | '' @
       extract_store_location_components row (store_cols cm) ! 2 @ '' | '' @
       extract_store_location_components row (store_cols cm) ! 3 @ '' | '' @
       extract_store_location_components row (store_cols cm) ! 4 @ '' | '' @
       extract_store_location_components row (store_cols cm) ! 5 @ '' | '' @
       extract_store_location_components row (store_cols cm) ! 6"
proof -
  have l: "length (extract_line_location_components row (line_cols cm)) = 7"
    by (simp add: extract_line_slots)
  have s: "length (extract_store_location_components row (store_cols cm)) = 7"
    by (simp add: extract_store_slots)
  show ?thesis
    unfolding qr_data_def newline_def join7 [OF l] join7 [OF s]
    using l s by simp
qed

section \<open>Properties of the generated story\<close>

lemma resolved_basic_nonempty:
  "part_no_col (resolve_columns df) \<noteq> Some []"
  "desc_col (resolve_columns df) \<noteq> Some []"
  "qty_bin_col (resolve_columns df) \<noteq> Some []"
  by (auto simp: resolve_columns_def dest!: find_column_nonempty)

lemma stickers_loop:
  "stickers (sticker_loop qrcode cm n rows) = map (\<lambda>(index, row). final_table qrcode cm row) rows"
  by (induction rows) (auto simp: stickers_def)

lemma stickers_all_elements:
  "stickers (all_elements qrcode df) =
     map (\<lambda>(index, row). final_table qrcode (resolve_columns df) row) (iterrows df)"
  by (simp add: all_elements_def stickers_loop)

text \<open>Evaluation of the example table of parts.\<close>

lemma parts_cols:
  "part_no_col (resolve_columns (parts_labelled i j)) = Some ''Part No''"
  "desc_col (resolve_columns (parts_labelled i j)) = Some ''Description''"
  "qty_bin_col (resolve_columns (parts_labelled i j)) = None"
  by (simp_all add: resolve_columns_def find_column_def parts_labelled_def upper_def
        is_ascii_lower_def)

lemma parts_line_cols:
  "line_cols (resolve_columns (parts_labelled i j)) =
     \<lparr> model = None, station_no = None, rack = None, rack_no_1st = None,
       rack_no_2nd = None, level = None, cell = None \<rparr>"
  by (simp add: resolve_columns_def find_column_def parts_labelled_def upper_def
        is_ascii_lower_def)

lemma parts_store_cols:
  "store_cols (resolve_columns (parts_labelled i j)) =
     \<lparr> abb_zone = None, abb_location = None, abb_floor = None, abb_rack_no = None,
       abb_level_in_rack = None, abb_cell = None, abb_no = None \<rparr>"
  by (simp add: resolve_columns_def find_column_def parts_labelled_def upper_def
        is_ascii_lower_def)

lemma parts_rows:
  "iterrows (parts_labelled i j) =
     [(i, [LStr ''Part No'' \<mapsto> Text ''A100'', LStr ''Description'' \<mapsto> Text ''Bolt M6'']),
      (j, [LStr ''Part No'' \<mapsto> Text ''A200'', LStr ''Description'' \<mapsto> Text ''Nut M6''])]"
  by (simp add: parts_labelled_def)

lemma payload_unresolved_locations:
  "line_cols cm = \<lparr> model = None, station_no = None, rack = None, rack_no_1st = None,
                    rack_no_2nd = None, level = None, cell = None \<rparr> \<Longrightarrow>
   store_cols cm = \<lparr> abb_zone = None, abb_location = None, abb_floor = None, abb_rack_no = None,
                     abb_level_in_rack = None, abb_cell = None, abb_no = None \<rparr> \<Longrightarrow>
   qr_data cm row =
     ''Part No: '' @ part_no cm row @ [CHR 0x0A] @
     ''Description: '' @ desc cm row @ [CHR 0x0A] @
     ''QTY/BIN: '' @ qty_bin cm row @ [CHR 0x0A] @
     ''Line Location:  |  |  |  |  |  | '' @ [CHR 0x0A] @
     ''Store Location:  |  |  |  |  |  | ''"
  by (simp add: qr_data_def extract_line_slots extract_store_slots entry_spec_def newline_def)

lemma parts_payload_A100:
  "qr_data (resolve_columns (parts_labelled i j))
     [LStr ''Part No'' \<mapsto> Text ''A100'', LStr ''Description'' \<mapsto> Text ''Bolt M6''] =
   ''Part No: A100'' @ [CHR 0x0A] @ ''Description: Bolt M6'' @ [CHR 0x0A] @
   ''QTY/BIN: '' @ [CHR 0x0A] @
   ''Line Location:  |  |  |  |  |  | '' @ [CHR 0x0A] @
   ''Store Location:  |  |  |  |  |  | ''"
  by (simp add: payload_unresolved_locations [OF parts_line_cols parts_store_cols]
        part_no_def desc_def qty_bin_def guarded_cell_def parts_cols)

text \<open>
  C8. Every row of the table yields its sticker, whatever the QR library does: the
  story holds one sticker per row, in row order, and where encoding the row's payload
  raises, the QR cell of that sticker is the placeholder paragraph \<open>QR\<close>. The result
  of generation is decided by document assembly alone.
\<close>

theorem qr_failure_placeholder:
  "length (stickers (all_elements qrcode df)) = length (iterrows df) \<and>
   (\<forall>i < length (iterrows df).
      stickers (all_elements qrcode df) ! i =
        final_table qrcode (resolve_columns df) (snd (iterrows df ! i)) \<and>
      (qrcode (qr_data (resolve_columns df) (snd (iterrows df ! i))) = None \<longrightarrow>
         qr_table (stickers (all_elements qrcode df) ! i) = Paragraph ''QR'')) \<and>
   (builds (all_elements qrcode df) \<longrightarrow>
      fst (generate_sticker_labels qrcode builds temp_path df fs) = Some temp_path)"
  by (auto simp: stickers_all_elements final_table_def generate_qr_code_def
        generate_sticker_labels_def Let_def split: prod.splits)

theorem qr_failure_placeholder_witness:
  "fails_on_A100 (qr_data (resolve_columns (parts_labelled 0 1))
                   (snd (iterrows (parts_labelled 0 1) ! 0))) = None \<and>
   qr_table (stickers (all_elements fails_on_A100 (parts_labelled 0 1)) ! 0) = Paragraph ''QR'' \<and>
   length (stickers (all_elements fails_on_A100 (parts_labelled 0 1))) = 2"
proof -
  let ?df = "parts_labelled 0 1"
  let ?story = "all_elements fails_on_A100 ?df"
  have fails: "fails_on_A100 (qr_data (resolve_columns ?df) (snd (iterrows ?df ! 0))) = None"
    by (simp add: parts_rows parts_payload_A100 fails_on_A100_def)
  have rows: "0 < length (iterrows ?df)" "length (iterrows ?df) = 2"
    by (simp_all add: parts_rows)
  have first: "fails_on_A100 (qr_data (resolve_columns ?df) (snd (iterrows ?df ! 0))) = None \<longrightarrow>
                 qr_table (stickers ?story ! 0) = Paragraph ''QR''"
    using qr_failure_placeholder [of fails_on_A100 ?df] rows(1) by blast
  have len: "length (stickers ?story) = 2"
    using qr_failure_placeholder [of fails_on_A100 ?df] rows(2) by simp
  from fails first len show ?thesis by blast
qed

text \<open>
  C9. When a basic field (part number, description or quantity) has no matching
  column, every sticker shows the empty string for it, every row still has its
  sticker, and generation returns the path whenever the document builds: the
  unresolved column is no error.
\<close>

theorem unresolved_basic_field_empty:
  "length (stickers (all_elements qrcode df)) = length (iterrows df) \<and>
   (part_no_col (resolve_columns df) = None \<longrightarrow>
      (\<forall>i < length (iterrows df).
         main_table_data (stickers (all_elements qrcode df) ! i) ! 0 = (''Part No'', []))) \<and>
   (desc_col (resolve_columns df) = None \<longrightarrow>
      (\<forall>i < length (iterrows df).
         main_table_data (stickers (all_elements qrcode df) ! i) ! 1 = (''Desc'', []))) \<and>
   (qty_bin_col (resolve_columns df) = None \<longrightarrow>
      (\<forall>i < length (iterrows df).
         main_table_data (stickers (all_elements qrcode df) ! i) ! 2 = (''Q/B'', []))) \<and>
   (builds (all_elements qrcode df) \<longrightarrow>
      fst (generate_sticker_labels qrcode builds temp_path df fs) = Some temp_path)"
  by (auto simp: stickers_all_elements final_table_def part_no_def desc_def qty_bin_def
        guarded_cell_def desc_paragraph_def generate_sticker_labels_def Let_def
        split: prod.splits)

theorem unresolved_basic_field_empty_witness:
  "qty_bin_col (resolve_columns (parts_labelled 0 1)) = None \<and>
   main_table_data (stickers (all_elements Some (parts_labelled 0 1)) ! 0) ! 2 = (''Q/B'', []) \<and>
   main_table_data (stickers (all_elements Some (parts_labelled 0 1)) ! 1) ! 2 = (''Q/B'', []) \<and>
   fst (generate_sticker_labels Some (\<lambda>story. True) ''/tmp/tmpq7x2.pdf''
          (parts_labelled 0 1) Map.empty) = Some ''/tmp/tmpq7x2.pdf''"
proof -
  let ?df = "parts_labelled 0 1"
  let ?story = "all_elements Some ?df"
  note checked = unresolved_basic_field_empty
                   [of Some ?df "\<lambda>story. True" "''/tmp/tmpq7x2.pdf''" Map.empty]
  have no_qty: "qty_bin_col (resolve_columns ?df) = None"
    by (rule parts_cols)
  have rows: "0 < length (iterrows ?df)" "1 < length (iterrows ?df)"
    by (simp_all add: parts_rows)
  from checked no_qty
  have every: "\<forall>i < length (iterrows ?df). main_table_data (stickers ?story ! i) ! 2 = (''Q/B'', [])"
    by blast
  from checked
  have path: "fst (generate_sticker_labels Some (\<lambda>story. True) ''/tmp/tmpq7x2.pdf'' ?df Map.empty) =
                Some ''/tmp/tmpq7x2.pdf''"
    by blast
  from no_qty every rows path show ?thesis by blast
qed

lemma str_null: "\<not> notna v \<Longrightarrow> str v = ''None'' \<or> str v = ''nan'' \<or> str v = ''NaT''"
  by (cases v) simp_all

lemma desc_paragraph_null: "\<not> notna v \<Longrightarrow> desc_paragraph (str v) = str v"
  using str_null [of v] by (auto simp: desc_paragraph_def)

lemma slots_null:
  "i < length cols \<Longrightarrow> cols ! i = Some c \<Longrightarrow> row (LStr c) = Some v \<Longrightarrow> \<not> notna v \<Longrightarrow>
   map (\<lambda>col. if col = Some [] then [] else entry_spec row col) cols ! i = []"
  by (simp add: entry_spec_def)

text \<open>
  C10. Null handling differs between the basic fields. Let a resolved column \<open>c\<close> hold a
  null in the row. If \<open>c\<close> is the quantity column, the quantity is the empty string on
  the sticker; if \<open>c\<close> is any of the fourteen location columns, that location entry is
  the empty string. If \<open>c\<close> is the part-number or the description column, the field is
  the text of the null (\<open>None\<close>, \<open>nan\<close> or \<open>NaT\<close>), shown so on the sticker and
  written so into the QR payload.
\<close>

theorem null_handling_asymmetry:
  assumes null: "\<not> notna v" and at_c: "row (LStr c) = Some v"
  shows
   "(qty_bin_col (resolve_columns df) = Some c \<longrightarrow>
       qty_bin (resolve_columns df) row = [] \<and>
       main_table_data (final_table qrcode (resolve_columns df) row) ! 2 = (''Q/B'', [])) \<and>
    (\<forall>i < 7. [model lc, station_no lc, rack lc, rack_no_1st lc, rack_no_2nd lc, level lc, cell lc] ! i
                = Some c \<longrightarrow>
       extract_line_location_components row lc ! i = []) \<and>
    (\<forall>i < 7. [abb_zone sc, abb_location sc, abb_floor sc, abb_rack_no sc,
              abb_level_in_rack sc, abb_cell sc, abb_no sc] ! i = Some c \<longrightarrow>
       extract_store_location_components row sc ! i = []) \<and>
    (part_no_col (resolve_columns df) = Some c \<longrightarrow>
       part_no (resolve_columns df) row = str v \<and>
       main_table_data (final_table qrcode (resolve_columns df) row) ! 0 = (''Part No'', str v) \<and>
       prefix (''Part No: '' @ str v @ [CHR 0x0A]) (qr_data (resolve_columns df) row)) \<and>
    (desc_col (resolve_columns df) = Some c \<longrightarrow>
       desc (resolve_columns df) row = str v \<and>
       main_table_data (final_table qrcode (resolve_columns df) row) ! 1 = (''Desc'', str v) \<and>
       prefix (''Part No: '' @ part_no (resolve_columns df) row @ [CHR 0x0A] @
               ''Description: '' @ str v @ [CHR 0x0A]) (qr_data (resolve_columns df) row)) \<and>
    str v \<in> {''None'', ''nan'', ''NaT''}"
proof -
  have qty: "qty_bin_col (resolve_columns df) = Some c \<Longrightarrow> qty_bin (resolve_columns df) row = []"
    using null at_c by (simp add: qty_bin_def guarded_cell_def)
  have part: "part_no_col (resolve_columns df) = Some c \<Longrightarrow> part_no (resolve_columns df) row = str v"
    using at_c resolved_basic_nonempty(1) [of df]
    by (simp add: part_no_def guarded_cell_def)
  have dsc: "desc_col (resolve_columns df) = Some c \<Longrightarrow> desc (resolve_columns df) row = str v"
    using at_c resolved_basic_nonempty(2) [of df]
    by (simp add: desc_def guarded_cell_def)
  have line: "\<forall>i < 7. [model lc, station_no lc, rack lc, rack_no_1st lc, rack_no_2nd lc, level lc, cell lc] ! i
                = Some c \<longrightarrow> extract_line_location_components row lc ! i = []"
  proof (intro allI impI)
    fix i :: nat
    assume i: "i < 7"
      and eq: "[model lc, station_no lc, rack lc, rack_no_1st lc, rack_no_2nd lc, level lc, cell lc] ! i = Some c"
    from i have len: "i < length [model lc, station_no lc, rack lc, rack_no_1st lc, rack_no_2nd lc,
                                  level lc, cell lc]"
      by simp
    show "extract_line_location_components row lc ! i = []"
      unfolding extract_line_slots by (rule slots_null [where row = row and v = v, OF len eq at_c null])
  qed
  have store: "\<forall>i < 7. [abb_zone sc, abb_location sc, abb_floor sc, abb_rack_no sc,
              abb_level_in_rack sc, abb_cell sc, abb_no sc] ! i = Some c \<longrightarrow>
       extract_store_location_components row sc ! i = []"
  proof (intro allI impI)
    fix i :: nat
    assume i: "i < 7"
      and eq: "[abb_zone sc, abb_location sc, abb_floor sc, abb_rack_no sc,
                abb_level_in_rack sc, abb_cell sc, abb_no sc] ! i = Some c"
    from i have len: "i < length [abb_zone sc, abb_location sc, abb_floor sc, abb_rack_no sc,
                                  abb_level_in_rack sc, abb_cell sc, abb_no sc]"
      by simp
    show "extract_store_location_components row sc ! i = []"
      unfolding extract_store_slots by (rule slots_null [where row = row and v = v, OF len eq at_c null])
  qed
  have names: "str v \<in> {''None'', ''nan'', ''NaT''}"
    using str_null [OF null] by auto
  have fields:
    "(qty_bin_col (resolve_columns df) = Some c \<longrightarrow>
       qty_bin (resolve_columns df) row = [] \<and>
       main_table_data (final_table qrcode (resolve_columns df) row) ! 2 = (''Q/B'', [])) \<and>
    (part_no_col (resolve_columns df) = Some c \<longrightarrow>
       part_no (resolve_columns df) row = str v \<and>
       main_table_data (final_table qrcode (resolve_columns df) row) ! 0 = (''Part No'', str v) \<and>
       prefix (''Part No: '' @ str v @ [CHR 0x0A]) (qr_data (resolve_columns df) row)) \<and>
    (desc_col (resolve_columns df) = Some c \<longrightarrow>
       desc (resolve_columns df) row = str v \<and>
       main_table_data (final_table qrcode (resolve_columns df) row) ! 1 = (''Desc'', str v) \<and>
       prefix (''Part No: '' @ part_no (resolve_columns df) row @ [CHR 0x0A] @
               ''Description: '' @ str v @ [CHR 0x0A]) (qr_data (resolve_columns df) row))"
    using qty part dsc desc_paragraph_null [OF null]
    by (auto simp: final_table_def qr_data_def newline_def)
  from fields line store names show ?thesis by blast
qed

lemma nulls_cols:
  "part_no_col (resolve_columns parts_with_nulls) = Some ''Part No''"
  "desc_col (resolve_columns parts_with_nulls) = Some ''Desc''"
  "qty_bin_col (resolve_columns parts_with_nulls) = Some ''Qty''"
  by (simp_all add: resolve_columns_def find_column_def parts_with_nulls_def upper_def
        is_ascii_lower_def)

theorem null_handling_asymmetry_witness:
  "\<not> notna NaN \<and> null_row (LStr ''Part No'') = Some NaN \<and> null_row (LStr ''Qty'') = Some NaN \<and>
   part_no_col (resolve_columns parts_with_nulls) = Some ''Part No'' \<and>
   qty_bin_col (resolve_columns parts_with_nulls) = Some ''Qty'' \<and>
   main_table_data (final_table Some (resolve_columns parts_with_nulls) null_row) ! 0 = (''Part No'', ''nan'') \<and>
   main_table_data (final_table Some (resolve_columns parts_with_nulls) null_row) ! 2 = (''Q/B'', [])"
proof -
  have null: "\<not> notna NaN" by simp
  have part: "null_row (LStr ''Part No'') = Some NaN" and qty: "null_row (LStr ''Qty'') = Some NaN"
    by (simp_all add: null_row_def)
  from null_handling_asymmetry [where v = NaN and row = null_row and c = "''Part No''"
                                  and df = parts_with_nulls and qrcode = Some]
       null part nulls_cols(1)
  have shown: "main_table_data (final_table Some (resolve_columns parts_with_nulls) null_row) ! 0 =
                 (''Part No'', ''nan'')"
    by simp
  from null_handling_asymmetry [where v = NaN and row = null_row and c = "''Qty''"
                                  and df = parts_with_nulls and qrcode = Some]
       null qty nulls_cols(3)
  have blank: "main_table_data (final_table Some (resolve_columns parts_with_nulls) null_row) ! 2 =
                 (''Q/B'', [])"
    by blast
  from null part qty nulls_cols(1) nulls_cols(3) shown blank show ?thesis by blast
qed

section \<open>Properties of the page breaks\<close>

lemma sticker_loop_default:
  "map fst rows = map int [k..<k + length rows] \<Longrightarrow> n = int (k + length rows) \<Longrightarrow>
   sticker_loop qrcode cm n rows =
     join [PageBreak] (map (\<lambda>(index, row). [Spacer, FinalTable (final_table qrcode cm row)]) rows)"
proof (induction rows arbitrary: k)
  case Nil
  show ?case by simp
next
  case (Cons r rows)
  obtain index row where r: "r = (index, row)" by (cases r)
  have up: "[k..<k + length (r # rows)] = k # [Suc k..<Suc k + length rows]"
    using upt_conv_Cons [of k "k + length (r # rows)"] by simp
  from Cons.prems(1) have ix: "index = int k"
    and rest: "map fst rows = map int [Suc k..<Suc k + length rows]"
    unfolding up by (simp_all add: r)
  from Cons.prems(2) have n: "n = int (Suc k + length rows)" by simp
  note IH = Cons.IH [OF rest n]
  show ?case
  proof (cases rows)
    case Nil
    with ix Cons.prems(2) show ?thesis by (simp add: r)
  next
    case (Cons r' rows')
    with ix Cons.prems(2) IH show ?thesis by (simp add: r split: prod.splits)
  qed
qed

lemma default_index_story:
  "default_index df \<Longrightarrow>
   all_elements qrcode df =
     join [PageBreak]
       (map (\<lambda>(index, row). [Spacer, FinalTable (final_table qrcode (resolve_columns df) row)])
          (iterrows df))"
  unfolding all_elements_def len_def default_index_def
  by (rule sticker_loop_default [where k = 0]) simp_all

lemma paginate_join:
  "paginate acc (join [PageBreak] ([Spacer, FinalTable s] # map (\<lambda>s. [Spacer, FinalTable s]) ss)) =
     (acc @ [Spacer, FinalTable s]) # map (\<lambda>s. [Spacer, FinalTable s]) ss"
  by (induction ss arbitrary: acc s) simp_all

lemma pages_join:
  "pages (join [PageBreak] (map (\<lambda>s. [Spacer, FinalTable s]) ss)) = map (\<lambda>s. [Spacer, FinalTable s]) ss"
proof (cases ss)
  case Nil
  then show ?thesis by (simp add: pages_def)
next
  case (Cons s ss')
  then show ?thesis using paginate_join [of "[]" s ss'] by (simp add: pages_def)
qed

lemma default_index_pages:
  assumes "default_index df"
  shows "pages (all_elements qrcode df) =
           map (\<lambda>(index, row). [Spacer, FinalTable (final_table qrcode (resolve_columns df) row)])
             (iterrows df)"
proof -
  have "map (\<lambda>(index, row). [Spacer, FinalTable (final_table qrcode (resolve_columns df) row)]) (iterrows df)
        = map (\<lambda>s. [Spacer, FinalTable s]) (map (\<lambda>(index, row). final_table qrcode (resolve_columns df) row) (iterrows df))"
    by (simp add: case_prod_unfold)
  then show ?thesis
    unfolding default_index_story [OF assms] by (simp only: pages_join)
qed

lemma parts_story:
  "all_elements qrcode (parts_labelled i j) =
     [Spacer, FinalTable (final_table qrcode (resolve_columns (parts_labelled i j))
        [LStr ''Part No'' \<mapsto> Text ''A100'', LStr ''Description'' \<mapsto> Text ''Bolt M6''])] @
     (if i < 1 then [PageBreak] else []) @
     [Spacer, FinalTable (final_table qrcode (resolve_columns (parts_labelled i j))
        [LStr ''Part No'' \<mapsto> Text ''A200'', LStr ''Description'' \<mapsto> Text ''Nut M6''])] @
     (if j < 1 then [PageBreak] else [])"
  by (simp add: all_elements_def len_def parts_rows)

text \<open>
  C3, where the code departs from it. The loop compares the row's label with
  \<open>len(df) - 1\<close>. On the two-row table of parts labelled 1 and 2 no page break is
  emitted, so both stickers share the one page; labelled 0 and 0, a page break
  follows the last row as well. With the default index the story is as claimed.
\<close>

theorem page_break_tests_row_label:
  "length (iterrows (parts_labelled 1 2)) = 2 \<and>
   PageBreak \<notin> set (all_elements Some (parts_labelled 1 2)) \<and>
   length (pages (all_elements Some (parts_labelled 1 2))) = 1 \<and>
   length (iterrows (parts_labelled 0 0)) = 2 \<and>
   last (all_elements Some (parts_labelled 0 0)) = PageBreak \<and>
   length (pages (all_elements Some (parts_labelled 0 1))) = 2"
  by (simp add: parts_story parts_rows pages_def)

section \<open>Properties of the temporary file\<close>

lemma temp_file_left_on_failure:
  "\<not> builds (all_elements qrcode df) \<Longrightarrow>
   main_generate qrcode builds temp_path df fs = (Failed, fs(temp_path \<mapsto> EmptyFile))"
  by (simp add: main_generate_def generate_sticker_labels_def Let_def)

lemma temp_file_removed_on_success:
  "builds (all_elements qrcode df) \<Longrightarrow> temp_path \<noteq> [] \<Longrightarrow>
   main_generate qrcode builds temp_path df fs =
     (Download (PdfFile (all_elements qrcode df)), fs(temp_path := None))"
  by (simp add: main_generate_def generate_sticker_labels_def Let_def)

text \<open>
  C5, where the code departs from it. When document assembly raises, generation
  reports the failure and offers no document, but nothing unlinks the temporary file:
  it is still there afterwards, as created. Only the success path removes it.
\<close>

theorem temp_file_left_behind:
  "fst (main_generate Some (\<lambda>story. False) ''/tmp/tmpq7x2.pdf'' (parts_labelled 0 1) Map.empty) = Failed \<and>
   snd (main_generate Some (\<lambda>story. False) ''/tmp/tmpq7x2.pdf'' (parts_labelled 0 1) Map.empty)
     ''/tmp/tmpq7x2.pdf'' = Some EmptyFile"
  by (simp add: temp_file_left_on_failure)

section \<open>The end-to-end scenario\<close>

lemma scenario_line_cols:
  "line_cols (resolve_columns (scenario_table abb row2)) =
     \<lparr> model = Some ''MODEL'', station_no = Some ''STATION NO'', rack = Some ''RACK'',
       rack_no_1st = None, rack_no_2nd = None, level = Some ''LEVEL'', cell = Some ''CELL'' \<rparr>"
  by (simp add: resolve_columns_def find_column_def scenario_table_def scenario_header_def
        upper_def is_ascii_lower_def)

lemma scenario_story:
  "all_elements qrcode (scenario_table abb row2) =
     [Spacer,
      FinalTable (final_table qrcode (resolve_columns (scenario_table abb row2)) (scenario_row1 abb)),
      PageBreak,
      Spacer,
      FinalTable (final_table qrcode (resolve_columns (scenario_table abb row2)) row2)]"
  by (simp add: all_elements_def len_def scenario_table_def)

lemma scenario_pages:
  "pages (all_elements qrcode (scenario_table abb row2)) =
     [[Spacer,
       FinalTable (final_table qrcode (resolve_columns (scenario_table abb row2)) (scenario_row1 abb))],
      [Spacer,
       FinalTable (final_table qrcode (resolve_columns (scenario_table abb row2)) row2)]]"
  by (simp add: scenario_story pages_def)

lemma scenario_first_strip:
  "map line_location_parts (stickers (pages (all_elements qrcode (scenario_table abb row2)) ! 0)) =
     [[''X1'', ''S3'', ''R2'', [], [], [], ''L4'']]"
  by (simp add: scenario_pages stickers_def final_table_def scenario_line_cols
        extract_line_slots entry_spec_def scenario_row1_def)

text \<open>
  C4, as the code has it. The scenario table, whatever its open cells hold, gives a
  2-page document, and the Line Location strip of page 1 reads, in the slot order
  model, station, rack, first rack digit, second rack digit, level, cell:
  \<open>X1\<close>, \<open>S3\<close>, \<open>R2\<close>, empty, empty, empty, \<open>L4\<close>. The row's values are assigned
  by column, so the empty value sits under \<open>LEVEL\<close> and \<open>L4\<close> under \<open>CELL\<close>.
\<close>

theorem scenario_line_strip:
  "default_index (scenario_table abb row2) \<and>
   length (pages (all_elements qrcode (scenario_table abb row2))) = 2 \<and>
   map line_location_parts (stickers (pages (all_elements qrcode (scenario_table abb row2)) ! 0)) =
     [[''X1'', ''S3'', ''R2'', [], [], [], ''L4'']]"
proof -
  have labels: "default_index (scenario_table abb row2)"
    by (simp add: default_index_def scenario_table_def)
  have two: "length (pages (all_elements qrcode (scenario_table abb row2))) = 2"
    by (simp add: scenario_pages)
  from labels two scenario_first_strip show ?thesis by blast
qed

text \<open>
  C4 as stated fails: on the scenario table with empty store cells, the strip of
  page 1 is not \<open>X1\<close>, \<open>S3\<close>, \<open>R2\<close>, empty, empty, \<open>L4\<close>, empty.
\<close>

theorem scenario_claimed_strip_differs:
  "map line_location_parts
     (stickers (pages (all_elements Some (scenario_table empty_abb scenario_row2)) ! 0)) \<noteq>
   [[''X1'', ''S3'', ''R2'', [], [], ''L4'', []]]"
  by (simp add: scenario_first_strip)

end
